theory Spec2Isabelle
  imports Complex_Main "HOL-Library.Log_Nat"
begin

section \<open>Python floats\<close>

text \<open>
  A Python float is an IEEE 754 double: a finite one is \<open>m * 2 ^ e\<close> for integers
  \<open>m\<close> and \<open>e\<close> with \<open>\<bar>m\<bar> < 2 ^ 53\<close> and \<open>- 1074 \<le> e\<close>, below \<open>2 ^ 1024\<close> in size; the
  pair \<open>(m, e)\<close> stands for it, and \<open>valof\<close> is the number it denotes. The sign of zero
  is not kept: no operation of the module tells \<^verbatim>\<open>-0.0\<close> from \<^verbatim>\<open>0.0\<close>.
\<close>

type_synonym binary = "int \<times> int"

definition valof :: "binary \<Rightarrow> real" where
  "valof b = of_int (fst b) * 2 powi (snd b)"

datatype double = Finite binary | PosInf | NegInf | NaN

text \<open>
  Rounding to nearest, ties to even: \<open>round_half_even M k\<close> is \<open>M / 2 ^ k\<close> rounded to
  an integer, and \<open>round_double M e\<close> is the double nearest to the exact number
  \<open>M * 2 ^ e\<close>, where \<open>- 1074 \<le> e\<close> (as for the difference of two doubles and for an
  integer): the 53 leading bits of \<open>M\<close> are kept, and a result of size \<open>2 ^ 1024\<close> or
  more is an infinity.
\<close>

definition round_half_even :: "int \<Rightarrow> nat \<Rightarrow> int" where
  "round_half_even M k =
     (let q = M div 2 ^ k; r = M mod 2 ^ k
      in if 2 * r < 2 ^ k then q else if 2 ^ k < 2 * r then q + 1
         else if even q then q else q + 1)"

definition round_double :: "int \<Rightarrow> int \<Rightarrow> double" where
  "round_double M e =
     (let k = nat (bitlen \<bar>M\<bar> - 53); m = round_half_even M k; e' = e + int k
      in if 0 < \<bar>m\<bar> \<and> 1024 < bitlen \<bar>m\<bar> + e' then (if 0 < m then PosInf else NegInf)
         else Finite (m, e'))"

text \<open>\<^verbatim>\<open>x - y\<close> on floats: the exact difference, rounded.\<close>

fun float_sub :: "double \<Rightarrow> double \<Rightarrow> double" where
  "float_sub (Finite a) (Finite b) =
     (let e = min (snd a) (snd b)
      in round_double (fst a * 2 ^ nat (snd a - e) - fst b * 2 ^ nat (snd b - e)) e)"
| "float_sub NaN _ = NaN"
| "float_sub _ NaN = NaN"
| "float_sub PosInf PosInf = NaN"
| "float_sub NegInf NegInf = NaN"
| "float_sub PosInf _ = PosInf"
| "float_sub NegInf _ = NegInf"
| "float_sub (Finite a) PosInf = NegInf"
| "float_sub (Finite a) NegInf = PosInf"


text \<open>\<open>a < b\<close> on finite doubles, compared exactly on a common exponent.\<close>

definition lt_binary :: "binary \<Rightarrow> binary \<Rightarrow> bool" where
  "lt_binary a b =
     (let e = min (snd a) (snd b)
      in fst a * 2 ^ nat (snd a - e) < fst b * 2 ^ nat (snd b - e))"

text \<open>\<^verbatim>\<open>x > y\<close> on floats: false when either is a NaN.\<close>

fun float_gt :: "double \<Rightarrow> double \<Rightarrow> bool" where
  "float_gt (Finite a) (Finite b) = lt_binary b a"
| "float_gt NaN _ = False"
| "float_gt _ NaN = False"
| "float_gt NegInf _ = False"
| "float_gt _ PosInf = False"
| "float_gt PosInf _ = True"
| "float_gt (Finite a) NegInf = True"

text \<open>
  \<^verbatim>\<open>x > i\<close> for a float and an \<^verbatim>\<open>int\<close>: Python compares the two numbers exactly, without
  converting the integer.
\<close>

fun float_gt_int :: "double \<Rightarrow> int \<Rightarrow> bool" where
  "float_gt_int (Finite a) i = lt_binary (i, 0) a"
| "float_gt_int PosInf i = True"
| "float_gt_int NegInf i = False"
| "float_gt_int NaN i = False"

section \<open>Python values\<close>

text \<open>
  The module \<^verbatim>\<open>sandbox/server/session_store.py\<close> is dynamically typed: the annotations
  \<^verbatim>\<open>language: str\<close>, \<^verbatim>\<open>ttl: int\<close> and \<^verbatim>\<open>files: Dict[str, str]\<close> are not enforced, and
  \<^verbatim>\<open>SessionData.loads\<close> stores whatever \<^verbatim>\<open>json.loads\<close> hands back. The fields of a
  session therefore hold values of the type below, which covers what \<^verbatim>\<open>json.loads\<close>
  can return. A dictionary is the list of its items in insertion order, looked up with
  \<open>map_of\<close>.
\<close>

datatype pyval =
    PNone
  | PBool bool
  | PInt int
  | PFloat double
  | PStr string
  | PList "pyval list"
  | PDict "(string \<times> pyval) list"

datatype error =
  KeyError | TypeError | OverflowError | JSONDecodeError | RedisError | ValueError

text \<open>Truth value testing, as \<^verbatim>\<open>or\<close> and \<^verbatim>\<open>if\<close> apply it.\<close>

fun truthy :: "pyval \<Rightarrow> bool" where
  "truthy PNone = False"
| "truthy (PBool b) = b"
| "truthy (PInt i) = (i \<noteq> 0)"
| "truthy (PFloat x) = (case x of Finite a \<Rightarrow> fst a \<noteq> 0 | _ \<Rightarrow> True)"
| "truthy (PStr s) = (s \<noteq> [])"
| "truthy (PList xs) = (xs \<noteq> [])"
| "truthy (PDict kvs) = (kvs \<noteq> [])"

text \<open>\<^verbatim>\<open>obj[key]\<close> with a string key: only a dictionary can be subscripted so.\<close>

fun getitem :: "pyval \<Rightarrow> string \<Rightarrow> error + pyval" where
  "getitem (PDict kvs) k = (case map_of kvs k of None \<Rightarrow> Inl KeyError | Some v \<Rightarrow> Inr v)"
| "getitem _ k = Inl TypeError"

text \<open>
  The right operand of \<^verbatim>\<open>float - y\<close>: an \<^verbatim>\<open>int\<close> (and a \<^verbatim>\<open>bool\<close>, which is one) is
  converted to the nearest float, with an \<^verbatim>\<open>OverflowError\<close> when it is too large;
  anything but a number is a \<^verbatim>\<open>TypeError\<close>.
\<close>

definition int_to_float :: "int \<Rightarrow> error + double" where
  "int_to_float i = (case round_double i 0 of Finite a \<Rightarrow> Inr (Finite a) | _ \<Rightarrow> Inl OverflowError)"

fun float_operand :: "pyval \<Rightarrow> error + double" where
  "float_operand (PFloat y) = Inr y"
| "float_operand (PInt i) = int_to_float i"
| "float_operand (PBool b) = Inr (Finite (of_bool b, 0))"
| "float_operand _ = Inl TypeError"

text \<open>\<^verbatim>\<open>x > y\<close> for a float \<open>x\<close>.\<close>

fun py_gt :: "double \<Rightarrow> pyval \<Rightarrow> error + bool" where
  "py_gt x (PFloat y) = Inr (float_gt x y)"
| "py_gt x (PInt i) = Inr (float_gt_int x i)"
| "py_gt x (PBool b) = Inr (float_gt_int x (of_bool b))"
| "py_gt x _ = Inl TypeError"

section \<open>SessionData\<close>

record SessionData =
  language :: pyval
  ttl :: pyval
  last_used :: pyval
  files :: pyval

text \<open>
  \<^verbatim>\<open>__init__(self, language, ttl, files=None)\<close>; \<open>now\<close> is the finite float that
  \<^verbatim>\<open>time.time()\<close> returns during the call.
\<close>

definition init :: "binary \<Rightarrow> pyval \<Rightarrow> pyval \<Rightarrow> pyval \<Rightarrow> SessionData" where
  "init now lang t fs =
     \<lparr>language = lang, ttl = t, last_used = PFloat (Finite now),
      files = (if truthy fs then fs else PDict [])\<rparr>"

text \<open>
  The standard library's \<^verbatim>\<open>json.dumps\<close> and \<^verbatim>\<open>json.loads\<close> are not part of the module;
  they are the parameters \<open>jd\<close> and \<open>jl\<close>.
\<close>

definition document :: "SessionData \<Rightarrow> pyval" where
  "document d =
     PDict [(''language'', language d), (''ttl'', ttl d),
            (''last_used'', last_used d), (''files'', files d)]"

definition dumps :: "(pyval \<Rightarrow> string) \<Rightarrow> SessionData \<Rightarrow> string" where
  "dumps jd d = jd (document d)"

definition loads :: "(string \<Rightarrow> error + pyval) \<Rightarrow> binary \<Rightarrow> string \<Rightarrow> error + SessionData" where
  "loads jl now payload =
     (case jl payload of Inl e \<Rightarrow> Inl e | Inr obj \<Rightarrow>
      (case getitem obj ''language'' of Inl e \<Rightarrow> Inl e | Inr lang \<Rightarrow>
       (case getitem obj ''ttl'' of Inl e \<Rightarrow> Inl e | Inr t \<Rightarrow>
        (case getitem obj ''files'' of Inl e \<Rightarrow> Inl e | Inr fs \<Rightarrow>
         (case getitem obj ''last_used'' of Inl e \<Rightarrow> Inl e | Inr lu \<Rightarrow>
            Inr ((init now lang t fs)\<lparr>last_used := lu\<rparr>))))))"

text \<open>The keys that \<open>loads\<close> subscripts the document with.\<close>

definition required_keys :: "string list" where
  "required_keys = [''language'', ''ttl'', ''last_used'', ''files'']"

definition touch :: "binary \<Rightarrow> SessionData \<Rightarrow> SessionData" where
  "touch now d = d\<lparr>last_used := PFloat (Finite now)\<rparr>"

text \<open>
  \<^verbatim>\<open>time.time() - self.last_used > self.ttl\<close>: the subtraction first, in floating
  point, then the comparison of its result with \<open>ttl\<close>.
\<close>

definition expired :: "binary \<Rightarrow> SessionData \<Rightarrow> error + bool" where
  "expired now d =
     (case float_operand (last_used d) of Inl e \<Rightarrow> Inl e | Inr l \<Rightarrow>
        py_gt (float_sub (Finite now) l) (ttl d))"

section \<open>MemorySessionStore\<close>

text \<open>
  The dictionary \<^verbatim>\<open>self._store\<close>. An operation takes the store and returns the new one;
  \<open>get\<close> also returns its result, and raises what \<open>expired\<close> raises. An instance of
  \<^verbatim>\<open>SessionData\<close> is always true in \<^verbatim>\<open>if data and data.expired()\<close> (the class defines
  neither \<^verbatim>\<open>__bool__\<close> nor \<^verbatim>\<open>__len__\<close>), so only \<^verbatim>\<open>None\<close> skips the check.
  The dictionary holds the caller's object; the model holds the value the object has
  when the operation runs.
\<close>

type_synonym memory_store = "string \<rightharpoonup> SessionData"

definition memory_delete :: "string \<Rightarrow> memory_store \<Rightarrow> memory_store" where
  "memory_delete sid s = s(sid := None)"

definition memory_create :: "string \<Rightarrow> SessionData \<Rightarrow> memory_store \<Rightarrow> memory_store" where
  "memory_create sid d s = s(sid \<mapsto> d)"

definition memory_save :: "string \<Rightarrow> SessionData \<Rightarrow> memory_store \<Rightarrow> memory_store" where
  "memory_save sid d s = s(sid \<mapsto> d)"

definition memory_get ::
  "binary \<Rightarrow> string \<Rightarrow> memory_store \<Rightarrow> error + (SessionData option \<times> memory_store)" where
  "memory_get now sid s =
     (case s sid of None \<Rightarrow> Inr (None, s) | Some d \<Rightarrow>
      (case expired now d of Inl e \<Rightarrow> Inl e | Inr b \<Rightarrow>
         if b then Inr (None, memory_delete sid s) else Inr (Some d, s)))"

section \<open>RedisSessionStore\<close>

text \<open>
  The Redis server behind \<^verbatim>\<open>self._r\<close> is a map from keys to a value and the time at
  which the server drops it. \<^verbatim>\<open>SET key value EX n\<close> takes a positive whole number of
  seconds: the client refuses an \<^verbatim>\<open>ex\<close> of another type and the server a time that is not
  positive. \<^verbatim>\<open>GET\<close> answers nothing for a key whose time has passed; \<^verbatim>\<open>DEL\<close> of a key
  that is not there is not an error. Connection failures are not modelled. The server
  reads the same clock as the process: when \<^verbatim>\<open>time.time()\<close> returns \<open>now\<close>, the server's
  time is \<open>valof now\<close>.
\<close>

type_synonym redis = "string \<rightharpoonup> (string \<times> real)"

definition r_get :: "string \<Rightarrow> real \<Rightarrow> redis \<Rightarrow> string option" where
  "r_get k now db =
     (case db k of None \<Rightarrow> None | Some (v, deadline) \<Rightarrow> if now < deadline then Some v else None)"

definition r_set :: "string \<Rightarrow> string \<Rightarrow> pyval \<Rightarrow> real \<Rightarrow> redis \<Rightarrow> error + redis" where
  "r_set k v ex now db =
     (case ex of
        PInt n \<Rightarrow> if 0 < n then Inr (db(k \<mapsto> (v, now + of_int n))) else Inl RedisError
      | _ \<Rightarrow> Inl RedisError)"

definition r_delete :: "string \<Rightarrow> redis \<Rightarrow> redis" where
  "r_delete k db = db(k := None)"

definition key :: "string \<Rightarrow> string" where
  "key sid = ''sf:session:'' @ sid"

definition redis_save ::
  "(pyval \<Rightarrow> string) \<Rightarrow> binary \<Rightarrow> string \<Rightarrow> SessionData \<Rightarrow> redis \<Rightarrow> error + redis" where
  "redis_save jd now sid d db = r_set (key sid) (dumps jd d) (ttl d) (valof now) db"

definition redis_create ::
  "(pyval \<Rightarrow> string) \<Rightarrow> binary \<Rightarrow> string \<Rightarrow> SessionData \<Rightarrow> redis \<Rightarrow> error + redis" where
  "redis_create jd now sid d db = redis_save jd now sid d db"

definition redis_delete :: "string \<Rightarrow> redis \<Rightarrow> redis" where
  "redis_delete sid db = r_delete (key sid) db"

definition redis_get ::
  "(string \<Rightarrow> error + pyval) \<Rightarrow> binary \<Rightarrow> string \<Rightarrow> redis
     \<Rightarrow> error + (SessionData option \<times> redis)" where
  "redis_get jl now sid db =
     (case r_get (key sid) (valof now) db of None \<Rightarrow> Inr (None, db) | Some payload \<Rightarrow>
      (case loads jl now payload of Inl e \<Rightarrow> Inl e | Inr d \<Rightarrow>
       (case expired now d of Inl e \<Rightarrow> Inl e | Inr b \<Rightarrow>
          if b then Inr (None, redis_delete sid db) else Inr (Some d, db))))"

section \<open>Factory\<close>

text \<open>
  \<^verbatim>\<open>os.getenv\<close> reads the environment \<open>env\<close>. Constructing a \<^verbatim>\<open>RedisSessionStore\<close> imports
  the client library and calls \<^verbatim>\<open>redis.from_url\<close>, which is outside the module: it is the
  parameter \<open>from_url\<close>, and may raise. The two log lines have no effect on the result.
\<close>

datatype 'c store = MemorySessionStore memory_store | RedisSessionStore 'c

definition getenv_or :: "(string \<rightharpoonup> string) \<Rightarrow> string \<Rightarrow> string \<Rightarrow> string option" where
  "getenv_or env a b =
     (case env a of None \<Rightarrow> env b | Some u \<Rightarrow> if u \<noteq> [] then Some u else env b)"

definition get_store ::
  "(string \<Rightarrow> error + 'c) \<Rightarrow> (string \<rightharpoonup> string) \<Rightarrow> error + 'c store" where
  "get_store from_url env =
     (case getenv_or env ''REDIS_URL'' ''REDIS_URI'' of
        None \<Rightarrow> Inr (MemorySessionStore Map.empty)
      | Some redis_url \<Rightarrow>
          if redis_url \<noteq> [] then
            (case from_url redis_url of Inl e \<Rightarrow> Inl e | Inr c \<Rightarrow> Inr (RedisSessionStore c))
          else Inr (MemorySessionStore Map.empty))"

section \<open>A worked session\<close>

text \<open>
  The session of the specification's scenario, last used at time 1000, with its
  serialised form. The table lists what \<^verbatim>\<open>json.loads\<close> returns for four texts;
  \<open>table_loads\<close> and \<open>table_dumps\<close> are \<^verbatim>\<open>json.loads\<close> and \<^verbatim>\<open>json.dumps\<close> cut down to
  that table, and stand for the library where a theorem is evaluated.
\<close>

definition demo_session :: SessionData where
  "demo_session =
     \<lparr>language = PStr ''python'', ttl = PInt 2, last_used = PFloat (Finite (1000, 0)),
      files = PDict [(''a.py'', PStr ''x'')]\<rparr>"

definition demo_text :: string where
  \<open>demo_text = ''{"language": "python", "ttl": 2, "last_used": 1000.0, "files": {"a.py": "x"}}''\<close>

definition json_table :: "(string \<times> pyval) list" where
  \<open>json_table =
     [(''{"language": "python", "ttl": 2, "last_used": 1000.0, "files": {"a.py": "x"}}'',
       PDict [(''language'', PStr ''python''), (''ttl'', PInt 2),
              (''last_used'', PFloat (Finite (1000, 0))), (''files'', PDict [(''a.py'', PStr ''x'')])]),
      (''{"language": "python", "ttl": "soon", "last_used": 1000.0, "files": ["a.py"]}'',
       PDict [(''language'', PStr ''python''), (''ttl'', PStr ''soon''),
              (''last_used'', PFloat (Finite (1000, 0))), (''files'', PList [PStr ''a.py''])]),
      (''{"language": "python", "ttl": 2, "last_used": 1000.0, "files": null}'',
       PDict [(''language'', PStr ''python''), (''ttl'', PInt 2),
              (''last_used'', PFloat (Finite (1000, 0))), (''files'', PNone)]),
      (''{"language": "python", "ttl": 2, "files": {}}'',
       PDict [(''language'', PStr ''python''), (''ttl'', PInt 2), (''files'', PDict [])])]\<close>

definition table_loads :: "string \<Rightarrow> error + pyval" where
  "table_loads s = (case map_of json_table s of None \<Rightarrow> Inl JSONDecodeError | Some v \<Rightarrow> Inr v)"

definition table_dumps :: "pyval \<Rightarrow> string" where
  "table_dumps v =
     (case map_of (map (\<lambda>(s, w). (w, s)) json_table) v of None \<Rightarrow> ''null'' | Some s \<Rightarrow> s)"


definition demo_store :: memory_store where
  "demo_store = [''abc'' \<mapsto> demo_session]"

text \<open>The session written to Redis at time 1005 without a \<open>touch\<close>: the server keeps it until 1007.\<close>

definition demo_redis :: redis where
  "demo_redis = [''sf:session:abc'' \<mapsto> (demo_text, 1007)]"

text \<open>Three more payloads of the table: values of the wrong shape, \<^verbatim>\<open>null\<close> files, a key missing.\<close>

definition shapeless_text :: string where
  \<open>shapeless_text = ''{"language": "python", "ttl": "soon", "last_used": 1000.0, "files": ["a.py"]}''\<close>

definition null_files_text :: string where
  \<open>null_files_text = ''{"language": "python", "ttl": 2, "last_used": 1000.0, "files": null}''\<close>

definition truncated_text :: string where
  \<open>truncated_text = ''{"language": "python", "ttl": 2, "files": {}}''\<close>

text \<open>
  What \<^verbatim>\<open>redis.from_url\<close> checks of a URL before any connection is made: its scheme.
\<close>

definition from_url_scheme :: "string \<Rightarrow> error + string" where
  "from_url_scheme url =
     (if take 8 url = ''redis://'' \<or> take 9 url = ''rediss://'' \<or> take 7 url = ''unix://''
      then Inr url else Inl ValueError)"

text \<open>A session stored earlier under the same id, in each backend, and the Redis state after
  \<open>demo_session\<close> is saved over it at time 1000.\<close>

definition older_session :: SessionData where
  "older_session =
     \<lparr>language = PStr ''bash'', ttl = PInt 60, last_used = PFloat (Finite (990, 0)), files = PDict []\<rparr>"

definition older_store :: memory_store where
  "older_store = [''abc'' \<mapsto> older_session]"

definition older_redis :: redis where
  \<open>older_redis =
     [''sf:session:abc'' \<mapsto>
        (''{"language": "bash", "ttl": 60, "last_used": 990.0, "files": {}}'', 1050)]\<close>

definition saved_redis :: redis where
  "saved_redis = [''sf:session:abc'' \<mapsto> (demo_text, 1002)]"

definition demo_env :: "string \<rightharpoonup> string" where
  "demo_env = [''REDIS_URL'' \<mapsto> ''redis://cache:6379/0'', ''REDIS_URI'' \<mapsto> ''redis://other:6379/1'']"

section \<open>Floating-point subtraction\<close>





















section \<open>Expiry\<close>

text \<open>
  An integer \<open>last_used\<close> too large for a float makes the subtraction raise: \<open>2 ^ 1024\<close> is
  the least power of two that does.
\<close>

lemma expired_overflow:
  "expired (1001, 0) (demo_session\<lparr>last_used := PInt (2 ^ 1024)\<rparr>) = Inl OverflowError"
  by code_simp




section \<open>Reading a session\<close>

lemma memory_get_cases:
  "memory_get now sid s = Inr (Some d', s') \<Longrightarrow> s sid = Some d' \<and> expired now d' = Inr False"
  by (auto simp: memory_get_def split: option.splits sum.splits if_splits)

lemma redis_get_cases:
  "redis_get jl now sid db = Inr (Some e', db') \<Longrightarrow>
     expired now e' = Inr False \<and> (\<exists>p. r_get (key sid) (valof now) db = Some p \<and> loads jl now p = Inr e')"
  by (auto simp: redis_get_def split: option.splits sum.splits if_splits)

text \<open>
  C1. In both stores \<open>get\<close> returns the stored session when there is one and it has not
  expired, and nothing otherwise. When the stored session has expired, \<open>get\<close> deletes it
  and returns nothing, so that the key is gone from the backend afterwards; a session
  that \<open>get\<close> does return is the stored one and is not expired. For Redis the stored
  session is what \<open>loads\<close> makes of the payload that \<^verbatim>\<open>GET\<close> returns.
\<close>

theorem get_returns_live_record_and_deletes_expired:
  "(s sid = None \<longrightarrow> memory_get now sid s = Inr (None, s))
   \<and> (s sid = Some d \<and> expired now d = Inr False \<longrightarrow> memory_get now sid s = Inr (Some d, s))
   \<and> (s sid = Some d \<and> expired now d = Inr True \<longrightarrow>
        memory_get now sid s = Inr (None, memory_delete sid s) \<and> memory_delete sid s sid = None)
   \<and> (memory_get now sid s = Inr (Some d', s') \<longrightarrow> s sid = Some d' \<and> expired now d' = Inr False)
   \<and> (r_get (key sid) (valof now) db = None \<longrightarrow> redis_get jl now sid db = Inr (None, db))
   \<and> (r_get (key sid) (valof now) db = Some p \<and> loads jl now p = Inr e \<and> expired now e = Inr False \<longrightarrow>
        redis_get jl now sid db = Inr (Some e, db))
   \<and> (r_get (key sid) (valof now) db = Some p \<and> loads jl now p = Inr e \<and> expired now e = Inr True \<longrightarrow>
        redis_get jl now sid db = Inr (None, redis_delete sid db)
        \<and> redis_delete sid db (key sid) = None
        \<and> r_get (key sid) later (redis_delete sid db) = None)
   \<and> (redis_get jl now sid db = Inr (Some e', db') \<longrightarrow>
        expired now e' = Inr False
        \<and> (\<exists>q. r_get (key sid) (valof now) db = Some q \<and> loads jl now q = Inr e'))"
proof -
  have m: "memory_get now sid s = Inr (Some d', s') \<longrightarrow> s sid = Some d' \<and> expired now d' = Inr False"
    using memory_get_cases by blast
  have r: "redis_get jl now sid db = Inr (Some e', db') \<longrightarrow>
        expired now e' = Inr False
        \<and> (\<exists>q. r_get (key sid) (valof now) db = Some q \<and> loads jl now q = Inr e')"
    using redis_get_cases by blast
  show ?thesis
    using m r
    by (simp add: memory_get_def memory_delete_def redis_get_def redis_delete_def
        r_delete_def r_get_def)
qed

theorem get_returns_live_record_and_deletes_expired_witness:
  "memory_get (1001, 0) ''abc'' Map.empty = Inr (None, Map.empty)
   \<and> memory_get (1001, 0) ''abc'' demo_store = Inr (Some demo_session, demo_store)
   \<and> memory_get (1003, 0) ''abc'' demo_store = Inr (None, memory_delete ''abc'' demo_store)
   \<and> memory_delete ''abc'' demo_store ''abc'' = None
   \<and> redis_get table_loads (1001, 0) ''abc'' Map.empty = Inr (None, Map.empty)
   \<and> redis_get table_loads (1001, 0) ''abc'' demo_redis = Inr (Some demo_session, demo_redis)
   \<and> redis_get table_loads (1006, 0) ''abc'' demo_redis = Inr (None, redis_delete ''abc'' demo_redis)
   \<and> r_get (key ''abc'') 1006 (redis_delete ''abc'' demo_redis) = None"
proof -
  have e1: "expired (1001, 0) demo_session = Inr False" by code_simp
  have e2: "expired (1003, 0) demo_session = Inr True" by code_simp
  have e3: "expired (1006, 0) demo_session = Inr True" by code_simp
  have l: "loads table_loads t demo_text = Inr demo_session" for t
    by (simp add: loads_def table_loads_def json_table_def demo_text_def demo_session_def init_def)
  have g: "r_get (key ''abc'') (valof (1001, 0)) demo_redis = Some demo_text"
    "r_get (key ''abc'') (valof (1006, 0)) demo_redis = Some demo_text"
    "r_get (key ''abc'') (valof (1001, 0)) Map.empty = None"
    by (simp_all add: r_get_def key_def demo_redis_def valof_def)
  have s: "demo_store ''abc'' = Some demo_session" "(Map.empty :: memory_store) ''abc'' = None"
    by (simp_all add: demo_store_def)
  note T = get_returns_live_record_and_deletes_expired
  note c2 = conjunct2
  have w1: "memory_get (1001, 0) ''abc'' Map.empty = Inr (None, Map.empty)"
    using T [where s = Map.empty and sid = "''abc''" and now = "(1001, 0)", THEN conjunct1] by simp
  have w2: "memory_get (1001, 0) ''abc'' demo_store = Inr (Some demo_session, demo_store)"
    using T [where s = demo_store and sid = "''abc''" and now = "(1001, 0)" and d = demo_session,
             THEN c2, THEN conjunct1] s e1 by simp
  have w3: "memory_get (1003, 0) ''abc'' demo_store = Inr (None, memory_delete ''abc'' demo_store)
            \<and> memory_delete ''abc'' demo_store ''abc'' = None"
    using T [where s = demo_store and sid = "''abc''" and now = "(1003, 0)" and d = demo_session,
             THEN c2, THEN c2, THEN conjunct1] s e2 by simp
  have w4: "demo_store ''abc'' = Some demo_session \<and> expired (1001, 0) demo_session = Inr False"
    using T [where s = demo_store and sid = "''abc''" and now = "(1001, 0)" and d' = demo_session
               and s' = demo_store, THEN c2, THEN c2, THEN c2, THEN conjunct1] w2 by simp
  have w5: "redis_get table_loads (1001, 0) ''abc'' Map.empty = Inr (None, Map.empty)"
    using T [where sid = "''abc''" and now = "(1001, 0)" and db = Map.empty and jl = table_loads,
             THEN c2, THEN c2, THEN c2, THEN c2, THEN conjunct1] g by simp
  have w6: "redis_get table_loads (1001, 0) ''abc'' demo_redis = Inr (Some demo_session, demo_redis)"
    using T [where sid = "''abc''" and now = "(1001, 0)" and db = demo_redis and jl = table_loads
               and p = demo_text and e = demo_session,
             THEN c2, THEN c2, THEN c2, THEN c2, THEN c2, THEN conjunct1] g l e1 by simp
  have w7: "redis_get table_loads (1006, 0) ''abc'' demo_redis = Inr (None, redis_delete ''abc'' demo_redis)
            \<and> redis_delete ''abc'' demo_redis (key ''abc'') = None
            \<and> r_get (key ''abc'') 1006 (redis_delete ''abc'' demo_redis) = None"
    using T [where sid = "''abc''" and now = "(1006, 0)" and db = demo_redis and jl = table_loads
               and p = demo_text and e = demo_session and later = 1006,
             THEN c2, THEN c2, THEN c2, THEN c2, THEN c2, THEN c2, THEN conjunct1] g l e3 by simp
  have w8: "expired (1001, 0) demo_session = Inr False
            \<and> (\<exists>q. r_get (key ''abc'') (valof (1001, 0)) demo_redis = Some q
                   \<and> loads table_loads (1001, 0) q = Inr demo_session)"
    using T [where sid = "''abc''" and now = "(1001, 0)" and db = demo_redis and jl = table_loads
               and e' = demo_session and db' = demo_redis,
             THEN c2, THEN c2, THEN c2, THEN c2, THEN c2, THEN c2, THEN c2] w6 by simp
  show ?thesis
    using w1 w2 w3 w5 w6 w7 by simp
qed

section \<open>Serialisation\<close>

lemma getitem_document:
  "getitem (document r) ''language'' = Inr (language r)"
  "getitem (document r) ''ttl'' = Inr (ttl r)"
  "getitem (document r) ''last_used'' = Inr (last_used r)"
  "getitem (document r) ''files'' = Inr (files r)"
  by (simp_all add: document_def)

lemma loads_document:
  assumes "jl p = Inr (document r)"
  shows "loads jl now p = Inr (r\<lparr>files := (if truthy (files r) then files r else PDict [])\<rparr>)"
  using assms by (cases r) (simp add: loads_def getitem_document init_def)

text \<open>
  C3. Serialisation round-trips: for a session whose \<open>files\<close> is a dictionary, \<open>loads\<close>
  of its \<open>dumps\<close> is the session itself, all four fields equal. The JSON library is
  taken as given: the hypothesis is that it reads back the document it printed.
\<close>

theorem loads_dumps_roundtrip:
  assumes "jl (jd (document r)) = Inr (document r)" and "files r = PDict kvs"
  shows "loads jl now (dumps jd r) = Inr r"
proof -
  have "(if truthy (files r) then files r else PDict []) = files r"
    using assms(2) by (cases kvs) simp_all
  then show ?thesis
    using loads_document [where jl = jl and p = "jd (document r)" and r = r and now = now] assms(1)
    by (simp add: dumps_def)
qed

theorem loads_dumps_roundtrip_witness:
  "table_loads (table_dumps (document demo_session)) = Inr (document demo_session)
   \<and> files demo_session = PDict [(''a.py'', PStr ''x'')]
   \<and> loads table_loads (1234, 0) (dumps table_dumps demo_session) = Inr demo_session"
proof -
  have a: "table_loads (table_dumps (document demo_session)) = Inr (document demo_session)"
    by (simp add: table_loads_def table_dumps_def json_table_def document_def demo_session_def)
  have b: "files demo_session = PDict [(''a.py'', PStr ''x'')]"
    by (simp add: demo_session_def)
  show ?thesis
    using a b loads_dumps_roundtrip [where jl = table_loads and jd = table_dumps
        and r = demo_session and kvs = "[(''a.py'', PStr ''x'')]" and now = "(1234, 0)"]
    by simp
qed

section \<open>Deserialisation\<close>

text \<open>
  C4, as the claim states it, fails: \<open>loads\<close> does not check the shape of a value. A
  payload whose \<open>ttl\<close> is a string and whose \<open>files\<close> is a list is accepted, and the
  record holds those values.
\<close>

theorem loads_accepts_wrong_shape:
  "loads table_loads (1234, 0) shapeless_text =
     Inr \<lparr>language = PStr ''python'', ttl = PStr ''soon'', last_used = PFloat (Finite (1000, 0)),
          files = PList [PStr ''a.py'']\<rparr>"
  by (simp add: loads_def table_loads_def json_table_def shapeless_text_def init_def)

lemma loads_missing_key:
  assumes "jl p = Inr (PDict kvs)" and "k \<in> set required_keys" and "map_of kvs k = None"
  shows "loads jl now p = Inl KeyError"
  using assms by (auto simp: loads_def required_keys_def split: option.splits sum.splits)

lemma loads_all_keys:
  assumes "jl p = Inr (PDict kvs)"
    and "map_of kvs ''language'' = Some lang" and "map_of kvs ''ttl'' = Some t"
    and "map_of kvs ''last_used'' = Some lu" and "map_of kvs ''files'' = Some fs"
  shows "loads jl now p =
           Inr \<lparr>language = lang, ttl = t, last_used = lu,
                files = (if truthy fs then fs else PDict [])\<rparr>"
  using assms by (simp add: loads_def init_def)

text \<open>
  C4, amended. \<open>loads\<close> fails, returning no record, when the payload is not JSON (with
  the library's error) and, with a \<^verbatim>\<open>KeyError\<close>, when the JSON object lacks any of the
  four keys. A JSON object with all four keys always loads: the record holds the
  payload's values as they are, whatever their shape, except that a false \<open>files\<close> value
  becomes the empty dictionary.
\<close>

theorem loads_checks_keys_not_shapes:
  "(jl p = Inl err \<longrightarrow> loads jl now p = Inl err)
   \<and> (jl p = Inr (PDict kvs) \<and> k \<in> set required_keys \<and> map_of kvs k = None \<longrightarrow>
        loads jl now p = Inl KeyError)
   \<and> (jl p = Inr (PDict kvs)
        \<and> map_of kvs ''language'' = Some lang \<and> map_of kvs ''ttl'' = Some t
        \<and> map_of kvs ''last_used'' = Some lu \<and> map_of kvs ''files'' = Some fs \<longrightarrow>
        loads jl now p =
          Inr \<lparr>language = lang, ttl = t, last_used = lu,
               files = (if truthy fs then fs else PDict [])\<rparr>)"
  using loads_missing_key [of jl p kvs k now] loads_all_keys [of jl p kvs lang t lu fs now]
  by (simp add: loads_def)

theorem loads_checks_keys_not_shapes_witness:
  "loads table_loads (1234, 0) ''not json'' = Inl JSONDecodeError
   \<and> loads table_loads (1234, 0) truncated_text = Inl KeyError
   \<and> loads table_loads (1234, 0) demo_text = Inr demo_session"
proof -
  note T = loads_checks_keys_not_shapes
  have j: "table_loads ''not json'' = Inl JSONDecodeError"
    "table_loads truncated_text =
       Inr (PDict [(''language'', PStr ''python''), (''ttl'', PInt 2), (''files'', PDict [])])"
    "table_loads demo_text =
       Inr (PDict [(''language'', PStr ''python''), (''ttl'', PInt 2),
              (''last_used'', PFloat (Finite (1000, 0))), (''files'', PDict [(''a.py'', PStr ''x'')])])"
    by (simp_all add: table_loads_def json_table_def truncated_text_def demo_text_def)
  have w1: "loads table_loads (1234, 0) ''not json'' = Inl JSONDecodeError"
    using T [where jl = table_loads and p = "''not json''" and err = JSONDecodeError and now = "(1234, 0)",
             THEN conjunct1] j(1) by simp
  have w2: "loads table_loads (1234, 0) truncated_text = Inl KeyError"
    using T [where jl = table_loads and p = truncated_text and now = "(1234, 0)" and k = "''last_used''"
               and kvs = "[(''language'', PStr ''python''), (''ttl'', PInt 2), (''files'', PDict [])]",
             THEN conjunct2, THEN conjunct1] j(2) by (simp add: required_keys_def)
  have w3: "loads table_loads (1234, 0) demo_text = Inr demo_session"
    using T [where jl = table_loads and p = demo_text and now = "(1234, 0)"
               and kvs = "[(''language'', PStr ''python''), (''ttl'', PInt 2),
                  (''last_used'', PFloat (Finite (1000, 0))), (''files'', PDict [(''a.py'', PStr ''x'')])]"
               and lang = "PStr ''python''" and t = "PInt 2" and lu = "PFloat (Finite (1000, 0))"
               and fs = "PDict [(''a.py'', PStr ''x'')]",
             THEN conjunct2, THEN conjunct2] j(3) by (simp add: demo_session_def)
  show ?thesis using w1 w2 w3 by simp
qed

text \<open>
  C10. A payload with all four keys whose \<open>files\<close> is \<^verbatim>\<open>null\<close>, or any other false
  value, loads without error, and the record's \<open>files\<close> is the empty dictionary.
\<close>

theorem loads_null_files_gives_empty_dict:
  assumes "jl p = Inr (PDict kvs)"
    and "map_of kvs ''language'' = Some lang" and "map_of kvs ''ttl'' = Some t"
    and "map_of kvs ''last_used'' = Some lu" and "map_of kvs ''files'' = Some fs"
    and "\<not> truthy fs"
  shows "loads jl now p = Inr \<lparr>language = lang, ttl = t, last_used = lu, files = PDict []\<rparr>"
  using assms by (simp add: loads_def init_def)

theorem loads_null_files_gives_empty_dict_witness:
  "\<not> truthy PNone
   \<and> loads table_loads (1234, 0) null_files_text =
       Inr \<lparr>language = PStr ''python'', ttl = PInt 2, last_used = PFloat (Finite (1000, 0)), files = PDict []\<rparr>"
proof -
  have j: "table_loads null_files_text =
       Inr (PDict [(''language'', PStr ''python''), (''ttl'', PInt 2),
              (''last_used'', PFloat (Finite (1000, 0))), (''files'', PNone)])"
    by (simp add: table_loads_def json_table_def null_files_text_def)
  show ?thesis
    using loads_null_files_gives_empty_dict [where jl = table_loads and p = null_files_text
        and kvs = "[(''language'', PStr ''python''), (''ttl'', PInt 2),
              (''last_used'', PFloat (Finite (1000, 0))), (''files'', PNone)]"
        and lang = "PStr ''python''" and t = "PInt 2" and lu = "PFloat (Finite (1000, 0))" and fs = PNone
        and now = "(1234, 0)"] j
    by simp
qed

section \<open>Writing a session\<close>

lemma redis_save_success:
  assumes "redis_save jd now sid r db = Inr db'"
  shows "\<exists>n. ttl r = PInt n \<and> 0 < n \<and> db' = db(key sid \<mapsto> (dumps jd r, valof now + of_int n))"
  using assms by (auto simp: redis_save_def r_set_def split: pyval.splits if_splits)

lemma redis_get_after_save:
  assumes "redis_save jd now sid r db = Inr db'"
  shows "redis_get jl later sid db' =
     (case ttl r of PInt n \<Rightarrow>
        if valof later < valof now + of_int n then
          (case loads jl later (dumps jd r) of Inl e \<Rightarrow> Inl e | Inr d \<Rightarrow>
            (case expired later d of Inl e \<Rightarrow> Inl e | Inr b \<Rightarrow>
               if b then Inr (None, redis_delete sid db') else Inr (Some d, db')))
        else Inr (None, db')
      | _ \<Rightarrow> Inl RedisError)"
  using redis_save_success [OF assms] by (auto simp: redis_get_def r_get_def)

text \<open>
  C5. In both stores \<open>save\<close> replaces the stored session as a whole, exactly as \<open>create\<close>
  would. In memory the entry is the given session, and a later \<open>get\<close> that returns a
  session returns that one. In Redis a \<open>save\<close> that returns sets the key to the
  serialised session with the server's deadline \<open>ttl\<close> seconds after the call, and a
  later \<open>get\<close> that returns a session returns what \<open>loads\<close> makes of that serialisation.
  In both, what a later \<open>get\<close> returns is the same whatever the store held before.
\<close>

theorem save_replaces_whole_record:
  "memory_save sid r s = memory_create sid r s
   \<and> memory_save sid r s sid = Some r
   \<and> (memory_get later sid (memory_save sid r s) = Inr (Some d, s') \<longrightarrow> d = r)
   \<and> map_sum id fst (memory_get later sid (memory_save sid r s))
       = map_sum id fst (memory_get later sid (memory_save sid r s0))
   \<and> (redis_save jd now sid r db = Inr db' \<longrightarrow>
        redis_create jd now sid r db = Inr db'
        \<and> (\<exists>n. ttl r = PInt n \<and> 0 < n \<and> db' (key sid) = Some (dumps jd r, valof now + of_int n)))
   \<and> (redis_save jd now sid r db = Inr db' \<and> redis_get jl later sid db' = Inr (Some d, db'') \<longrightarrow>
        loads jl later (dumps jd r) = Inr d)
   \<and> (redis_save jd now sid r db = Inr db' \<and> redis_save jd now sid r db0 = Inr db0' \<longrightarrow>
        map_sum id fst (redis_get jl later sid db') = map_sum id fst (redis_get jl later sid db0'))"
proof -
  have m1: "memory_get later sid (memory_save sid r s) = Inr (Some d, s') \<longrightarrow> d = r"
    by (auto simp: memory_get_def memory_save_def split: sum.splits if_splits)
  have m2: "map_sum id fst (memory_get later sid (memory_save sid r s))
       = map_sum id fst (memory_get later sid (memory_save sid r s0))"
    by (simp add: memory_get_def memory_save_def split: sum.splits)
  have r1: "redis_save jd now sid r db = Inr db' \<longrightarrow>
        redis_create jd now sid r db = Inr db'
        \<and> (\<exists>n. ttl r = PInt n \<and> 0 < n \<and> db' (key sid) = Some (dumps jd r, valof now + of_int n))"
    using redis_save_success [of jd now sid r db db'] by (auto simp: redis_create_def)
  have r2: "redis_save jd now sid r db = Inr db' \<and> redis_get jl later sid db' = Inr (Some d, db'') \<longrightarrow>
        loads jl later (dumps jd r) = Inr d"
  proof (intro impI, elim conjE)
    assume a: "redis_save jd now sid r db = Inr db'"
      and b: "redis_get jl later sid db' = Inr (Some d, db'')"
    show "loads jl later (dumps jd r) = Inr d"
      using b unfolding redis_get_after_save [OF a]
      by (auto split: pyval.splits sum.splits if_splits)
  qed
  have r3: "redis_save jd now sid r db = Inr db' \<and> redis_save jd now sid r db0 = Inr db0' \<longrightarrow>
        map_sum id fst (redis_get jl later sid db') = map_sum id fst (redis_get jl later sid db0')"
  proof (intro impI, elim conjE)
    assume a: "redis_save jd now sid r db = Inr db'"
      and b: "redis_save jd now sid r db0 = Inr db0'"
    show "map_sum id fst (redis_get jl later sid db') = map_sum id fst (redis_get jl later sid db0')"
      unfolding redis_get_after_save [OF a] redis_get_after_save [OF b]
      by (simp split: pyval.splits sum.splits)
  qed
  show ?thesis
    using m1 m2 r1 r2 r3 by (simp add: memory_save_def memory_create_def)
qed


theorem save_replaces_whole_record_witness:
  "memory_get (1001, 0) ''abc'' (memory_save ''abc'' demo_session older_store)
     = Inr (Some demo_session, demo_store)
   \<and> redis_save table_dumps (1000, 0) ''abc'' demo_session older_redis = Inr saved_redis
   \<and> redis_create table_dumps (1000, 0) ''abc'' demo_session older_redis = Inr saved_redis
   \<and> redis_get table_loads (1001, 0) ''abc'' saved_redis = Inr (Some demo_session, saved_redis)
   \<and> loads table_loads (1001, 0) (dumps table_dumps demo_session) = Inr demo_session
   \<and> map_sum id fst (redis_get table_loads (1001, 0) ''abc'' saved_redis) = Inr (Some demo_session)"
proof -
  note T = save_replaces_whole_record
  note c2 = conjunct2
  have d: "dumps table_dumps demo_session = demo_text"
    by (simp add: dumps_def table_dumps_def json_table_def document_def demo_session_def demo_text_def)
  have l: "loads table_loads t demo_text = Inr demo_session" for t
    by (simp add: loads_def table_loads_def json_table_def demo_text_def demo_session_def init_def)
  have e: "expired (1001, 0) demo_session = Inr False" by code_simp
  have m: "memory_save ''abc'' demo_session older_store = demo_store"
    by (simp add: memory_save_def older_store_def demo_store_def)
  have mg: "memory_get (1001, 0) ''abc'' demo_store = Inr (Some demo_session, demo_store)"
    using e by (simp add: memory_get_def demo_store_def)
  have sv: "redis_save table_dumps (1000, 0) ''abc'' demo_session older_redis = Inr saved_redis"
    using d by (simp add: redis_save_def r_set_def key_def valof_def older_redis_def saved_redis_def demo_session_def)
  have sv0: "redis_save table_dumps (1000, 0) ''abc'' demo_session Map.empty = Inr saved_redis"
    using d by (simp add: redis_save_def r_set_def key_def valof_def saved_redis_def demo_session_def)
  have rg: "redis_get table_loads (1001, 0) ''abc'' saved_redis = Inr (Some demo_session, saved_redis)"
    using l e by (simp add: redis_get_def r_get_def key_def valof_def saved_redis_def)
  have w1: "demo_session = demo_session"
    using T [where sid = "''abc''" and r = demo_session and s = older_store and later = "(1001, 0)"
               and d = demo_session and s' = demo_store, THEN c2, THEN c2, THEN conjunct1]
      m mg by simp
  have w2: "redis_create table_dumps (1000, 0) ''abc'' demo_session older_redis = Inr saved_redis"
    using T [where sid = "''abc''" and r = demo_session and jd = table_dumps and now = "(1000, 0)"
               and db = older_redis and db' = saved_redis,
             THEN c2, THEN c2, THEN c2, THEN c2, THEN conjunct1] sv by simp
  have w3: "loads table_loads (1001, 0) (dumps table_dumps demo_session) = Inr demo_session"
    using T [where sid = "''abc''" and r = demo_session and jd = table_dumps and now = "(1000, 0)"
               and db = older_redis and db' = saved_redis and jl = table_loads and later = "(1001, 0)"
               and d = demo_session and db'' = saved_redis,
             THEN c2, THEN c2, THEN c2, THEN c2, THEN c2, THEN conjunct1] sv rg by simp
  have w4: "map_sum id fst (redis_get table_loads (1001, 0) ''abc'' saved_redis)
              = map_sum id fst (redis_get table_loads (1001, 0) ''abc'' saved_redis)"
    using T [where sid = "''abc''" and r = demo_session and jd = table_dumps and now = "(1000, 0)"
               and db = older_redis and db' = saved_redis and jl = table_loads and later = "(1001, 0)"
               and ?db0.0 = Map.empty and db0' = saved_redis,
             THEN c2, THEN c2, THEN c2, THEN c2, THEN c2, THEN c2] sv sv0 by simp
  show ?thesis
    using m mg sv w2 rg w3 by simp
qed

text \<open>
  C6. \<open>save\<close> leaves \<open>last_used\<close> alone: the session stored in memory has the
  \<open>last_used\<close> of the session given, the payload stored in Redis is the serialisation of
  the session given, whose \<open>last_used\<close> entry is that value, and reading it back gives a
  session with that \<open>last_used\<close>. Only \<open>touch\<close> sets \<open>last_used\<close> to the current time, and
  it changes no other field.
\<close>

theorem save_keeps_last_used:
  "(\<exists>d. memory_save sid r s sid = Some d \<and> last_used d = last_used r)
   \<and> (redis_save jd now sid r db = Inr db' \<longrightarrow>
        (\<exists>deadline. db' (key sid) = Some (jd (document r), deadline))
        \<and> getitem (document r) ''last_used'' = Inr (last_used r))
   \<and> (redis_save jd now sid r db = Inr db' \<and> jl (jd (document r)) = Inr (document r)
        \<and> r_get (key sid) (valof later) db' = Some p \<longrightarrow>
        (\<exists>d. loads jl later p = Inr d \<and> last_used d = last_used r))
   \<and> last_used (touch t r) = PFloat (Finite t)
   \<and> language (touch t r) = language r \<and> ttl (touch t r) = ttl r \<and> files (touch t r) = files r"
proof -
  have r1: "redis_save jd now sid r db = Inr db' \<longrightarrow>
        (\<exists>deadline. db' (key sid) = Some (jd (document r), deadline))"
    using redis_save_success [of jd now sid r db db'] by (auto simp: dumps_def)
  have r2: "redis_save jd now sid r db = Inr db' \<and> jl (jd (document r)) = Inr (document r)
        \<and> r_get (key sid) (valof later) db' = Some p \<longrightarrow>
        (\<exists>d. loads jl later p = Inr d \<and> last_used d = last_used r)"
  proof (intro impI, elim conjE)
    assume a: "redis_save jd now sid r db = Inr db'"
      and b: "jl (jd (document r)) = Inr (document r)"
      and c: "r_get (key sid) (valof later) db' = Some p"
    from redis_save_success [OF a] c have "p = jd (document r)"
      by (auto simp: r_get_def dumps_def split: if_splits)
    with b show "\<exists>d. loads jl later p = Inr d \<and> last_used d = last_used r"
      using loads_document [where jl = jl and p = p and r = r and now = later] by simp
  qed
  show ?thesis
    using r1 r2 by (simp add: memory_save_def touch_def getitem_document)
qed

theorem save_keeps_last_used_witness:
  "redis_save table_dumps (1000, 0) ''abc'' demo_session older_redis = Inr saved_redis
   \<and> (\<exists>deadline. saved_redis (key ''abc'') = Some (table_dumps (document demo_session), deadline))
   \<and> (\<exists>d. loads table_loads (1001, 0) demo_text = Inr d \<and> last_used d = last_used demo_session)"
proof -
  note T = save_keeps_last_used
  have d: "table_dumps (document demo_session) = demo_text"
    by (simp add: table_dumps_def json_table_def document_def demo_session_def demo_text_def)
  have j: "table_loads (table_dumps (document demo_session)) = Inr (document demo_session)"
    by (simp add: table_loads_def table_dumps_def json_table_def document_def demo_session_def)
  have sv: "redis_save table_dumps (1000, 0) ''abc'' demo_session older_redis = Inr saved_redis"
    using d by (simp add: redis_save_def dumps_def r_set_def key_def valof_def older_redis_def saved_redis_def
        demo_session_def)
  have g: "r_get (key ''abc'') (valof (1001, 0)) saved_redis = Some demo_text"
    by (simp add: r_get_def key_def valof_def saved_redis_def)
  have w1: "(\<exists>deadline. saved_redis (key ''abc'') = Some (table_dumps (document demo_session), deadline))"
    using T [where sid = "''abc''" and r = demo_session and jd = table_dumps and now = "(1000, 0)"
               and db = older_redis and db' = saved_redis, THEN conjunct2, THEN conjunct1] sv
    by simp
  have w2: "\<exists>d. loads table_loads (1001, 0) demo_text = Inr d \<and> last_used d = last_used demo_session"
    using T [where sid = "''abc''" and r = demo_session and jd = table_dumps and now = "(1000, 0)"
               and db = older_redis and db' = saved_redis and jl = table_loads and later = "(1001, 0)"
               and p = demo_text, THEN conjunct2, THEN conjunct2, THEN conjunct1] sv j g
    by simp
  show ?thesis using sv w1 w2 by simp
qed

text \<open>
  C7. In the Redis store \<open>create\<close> and \<open>save\<close> are the same operation for every id and
  session: one \<^verbatim>\<open>SET\<close> of the key \<^verbatim>\<open>sf:session:\<close> followed by the id, to the serialised
  session, with the session's \<open>ttl\<close> as the expiry in seconds.
\<close>

theorem redis_create_is_save:
  "redis_create jd now sid d db = redis_save jd now sid d db
   \<and> redis_save jd now sid d db = r_set (''sf:session:'' @ sid) (dumps jd d) (ttl d) (valof now) db
   \<and> (ttl d = PInt n \<and> 0 < n \<longrightarrow>
        redis_create jd now sid d db
          = Inr (db(''sf:session:'' @ sid \<mapsto> (dumps jd d, valof now + of_int n)))
        \<and> redis_save jd now sid d db
          = Inr (db(''sf:session:'' @ sid \<mapsto> (dumps jd d, valof now + of_int n))))"
  by (simp add: redis_create_def redis_save_def key_def r_set_def)

theorem redis_create_is_save_witness:
  "redis_create table_dumps (1000, 0) ''abc'' demo_session older_redis = Inr saved_redis
   \<and> redis_save table_dumps (1000, 0) ''abc'' demo_session older_redis = Inr saved_redis"
proof -
  have d: "dumps table_dumps demo_session = demo_text"
    by (simp add: dumps_def table_dumps_def json_table_def document_def demo_session_def demo_text_def)
  have t: "ttl demo_session = PInt 2 \<and> (0::int) < 2"
    by (simp add: demo_session_def)
  have u: "older_redis(''sf:session:'' @ ''abc'' \<mapsto> (demo_text, valof (1000, 0) + of_int 2)) = saved_redis"
    by (simp add: older_redis_def saved_redis_def valof_def)
  show ?thesis
    using redis_create_is_save [where jd = table_dumps and now = "(1000, 0)" and sid = "''abc''"
        and d = demo_session and db = older_redis and n = 2, THEN conjunct2, THEN conjunct2] t
    unfolding d u by simp
qed

section \<open>Choosing the backend\<close>

text \<open>
  C8. \<open>get_store\<close> reads \<^verbatim>\<open>REDIS_URL\<close> first and \<^verbatim>\<open>REDIS_URI\<close> second. A non-empty
  \<^verbatim>\<open>REDIS_URL\<close> is used whatever \<^verbatim>\<open>REDIS_URI\<close> holds; \<^verbatim>\<open>REDIS_URI\<close> is used when
  \<^verbatim>\<open>REDIS_URL\<close> is unset or empty. With a URL that the client library accepts the result
  is a Redis store and nothing is raised; with neither variable set (or both empty) it
  is a memory store.
\<close>

theorem get_store_prefers_redis_url:
  "(env ''REDIS_URL'' = Some u \<and> u \<noteq> [] \<and> from_url u = Inr c \<longrightarrow>
      get_store from_url env = Inr (RedisSessionStore c))
   \<and> ((env ''REDIS_URL'' = None \<or> env ''REDIS_URL'' = Some [])
        \<and> env ''REDIS_URI'' = Some u \<and> u \<noteq> [] \<and> from_url u = Inr c \<longrightarrow>
      get_store from_url env = Inr (RedisSessionStore c))
   \<and> ((env ''REDIS_URL'' = None \<or> env ''REDIS_URL'' = Some [])
        \<and> (env ''REDIS_URI'' = None \<or> env ''REDIS_URI'' = Some []) \<longrightarrow>
      get_store from_url env = Inr (MemorySessionStore Map.empty))"
  by (auto simp: get_store_def getenv_or_def)

theorem get_store_prefers_redis_url_witness:
  "get_store from_url_scheme demo_env = Inr (RedisSessionStore ''redis://cache:6379/0'')
   \<and> get_store from_url_scheme [''REDIS_URI'' \<mapsto> ''redis://other:6379/1'']
       = Inr (RedisSessionStore ''redis://other:6379/1'')
   \<and> get_store from_url_scheme Map.empty = Inr (MemorySessionStore Map.empty)"
proof -
  note T = get_store_prefers_redis_url
  have f: "from_url_scheme ''redis://cache:6379/0'' = Inr ''redis://cache:6379/0''"
    "from_url_scheme ''redis://other:6379/1'' = Inr ''redis://other:6379/1''"
    by (simp_all add: from_url_scheme_def)
  have w1: "get_store from_url_scheme demo_env = Inr (RedisSessionStore ''redis://cache:6379/0'')"
    using T [where env = demo_env and u = "''redis://cache:6379/0''" and from_url = from_url_scheme
               and c = "''redis://cache:6379/0''", THEN conjunct1] f
    by (simp add: demo_env_def)
  have w2: "get_store from_url_scheme [''REDIS_URI'' \<mapsto> ''redis://other:6379/1'']
       = Inr (RedisSessionStore ''redis://other:6379/1'')"
    using T [where env = "[''REDIS_URI'' \<mapsto> ''redis://other:6379/1'']"
               and u = "''redis://other:6379/1''" and from_url = from_url_scheme
               and c = "''redis://other:6379/1''", THEN conjunct2, THEN conjunct1] f
    by simp
  have w3: "get_store from_url_scheme Map.empty = Inr (MemorySessionStore Map.empty)"
    using T [where env = Map.empty and from_url = from_url_scheme, THEN conjunct2, THEN conjunct2]
    by simp
  show ?thesis using w1 w2 w3 by simp
qed

section \<open>Deleting a session\<close>

text \<open>
  C9. \<open>delete\<close> is idempotent in both stores: on an id with no stored session it leaves
  the store as it is, on a stored id it removes the session and nothing else, and a
  second \<open>delete\<close> changes nothing more. Neither \<^verbatim>\<open>dict.pop\<close> with a default nor \<^verbatim>\<open>DEL\<close>
  raises for a missing key, so \<open>delete\<close> has no error result.
\<close>

theorem delete_is_idempotent:
  "memory_delete sid (memory_delete sid s) = memory_delete sid s
   \<and> (s sid = None \<longrightarrow> memory_delete sid s = s)
   \<and> memory_delete sid s sid = None
   \<and> (other \<noteq> sid \<longrightarrow> memory_delete sid s other = s other)
   \<and> redis_delete sid (redis_delete sid db) = redis_delete sid db
   \<and> (db (key sid) = None \<longrightarrow> redis_delete sid db = db)
   \<and> redis_delete sid db (key sid) = None
   \<and> r_get (key sid) now (redis_delete sid db) = None
   \<and> (k \<noteq> key sid \<longrightarrow> redis_delete sid db k = db k)"
  by (auto simp: memory_delete_def redis_delete_def r_delete_def r_get_def)

theorem delete_is_idempotent_witness:
  "memory_delete ''abc'' Map.empty = Map.empty
   \<and> memory_delete ''abc'' demo_store = Map.empty
   \<and> memory_delete ''abc'' (memory_delete ''abc'' demo_store) = Map.empty
   \<and> memory_delete ''abc'' demo_store ''xyz'' = demo_store ''xyz''
   \<and> redis_delete ''abc'' Map.empty = Map.empty
   \<and> redis_delete ''abc'' (redis_delete ''abc'' demo_redis) = redis_delete ''abc'' demo_redis
   \<and> redis_delete ''abc'' demo_redis ''unrelated'' = demo_redis ''unrelated''"
proof -
  note T = delete_is_idempotent
  note c2 = conjunct2
  have m: "memory_delete ''abc'' demo_store = Map.empty"
    by (simp add: memory_delete_def demo_store_def)
  have w1: "memory_delete ''abc'' Map.empty = Map.empty"
    using T [where sid = "''abc''" and s = Map.empty, THEN c2, THEN conjunct1] by simp
  have w2: "memory_delete ''abc'' (memory_delete ''abc'' demo_store) = Map.empty"
    using T [where sid = "''abc''" and s = demo_store, THEN conjunct1] m by simp
  have w3: "memory_delete ''abc'' demo_store ''xyz'' = demo_store ''xyz''"
    using T [where sid = "''abc''" and s = demo_store and other = "''xyz''",
             THEN c2, THEN c2, THEN c2, THEN conjunct1] by simp
  have w4: "redis_delete ''abc'' Map.empty = Map.empty"
    using T [where sid = "''abc''" and db = Map.empty,
             THEN c2, THEN c2, THEN c2, THEN c2, THEN c2, THEN conjunct1] by simp
  have w5: "redis_delete ''abc'' (redis_delete ''abc'' demo_redis) = redis_delete ''abc'' demo_redis"
    using T [where sid = "''abc''" and db = demo_redis,
             THEN c2, THEN c2, THEN c2, THEN c2, THEN conjunct1] by simp
  have w6: "redis_delete ''abc'' demo_redis ''unrelated'' = demo_redis ''unrelated''"
    using T [where sid = "''abc''" and db = demo_redis and k = "''unrelated''",
             THEN c2, THEN c2, THEN c2, THEN c2, THEN c2, THEN c2, THEN c2, THEN c2]
    by (simp add: key_def)
  show ?thesis using m w1 w2 w3 w4 w5 w6 by simp
qed

end
